theory Spec2Isabelle
  imports Main
begin

section \<open>Data model of \<open>controllers/twitch.go\<close>\<close>

text \<open>
  Go strings and byte slices are byte sequences: \<^typ>\<open>string\<close>. The constants of the
  source file keep their names.
\<close>

definition defaultClientID :: string where
  "defaultClientID = ''abcd1234''"

definition defaultClientSecret :: string where
  "defaultClientSecret = ''abcd1234''"

text \<open>The key of the token in \<open>ConfigBucket\<close>, and the two endpoints the file names.\<close>

definition tokenKey :: string where
  "tokenKey = ''twitchAccessToken''"

definition validateURL :: string where
  "validateURL = ''https://id.twitch.tv/oauth2/validate''"

definition streamsURL :: string where
  "streamsURL = ''https://api.twitch.tv/helix/streams/?''"

record StreamData =
  ID :: string
  UserID :: string
  UserName :: string
  GameID :: string
  Type :: string
  Title :: string
  ViewerCount :: int
  StartedAt :: string

text \<open>
  The configuration and the publisher type are declared in other files of the package;
  \<open>twitch.go\<close> reads two fields of each.
\<close>

record Config =
  TwitchClientID :: string
  TwitchClientSecret :: string

record Publisher =
  Name :: string
  TwitchStream :: string

record Controller =
  Config :: Config

text \<open>
  Every error the file creates with \<open>errors.New\<close> is a constructor, in the order of the
  source; \<open>External\<close> carries an error handed back by a library (the store, the HTTP
  transport, the OAuth2 client, the JSON decoder) or by the publisher registry.

  \<^item> \<open>ErrCachedTokenNotFound\<close>: "cached twitch access token not found in db"
  \<^item> \<open>ErrNoTokenProvided\<close>: "updateCachedAccessToken: no token provided"
  \<^item> \<open>ErrValidationStatus\<close>: "token validation response status code != 200"
  \<^item> \<open>ErrDefaultClientID\<close>: "Default twitch client id value detected. Skipping twitch call"
  \<^item> \<open>ErrDefaultClientSecret\<close>: "Default twitch client secret value detected. Skipping twitch call"
\<close>

datatype error =
    ErrCachedTokenNotFound
  | ErrNoTokenProvided
  | ErrValidationStatus
  | ErrDefaultClientID
  | ErrDefaultClientSecret
  | External string

text \<open>
  A call returns a value, returns an error, or panics (a nil \<open>*http.Request\<close> is
  dereferenced when \<open>http.NewRequest\<close> fails, since the source only logs that error).
\<close>

datatype 'a result = Ok 'a | Err error | Panic

record request =
  Method :: string
  URL :: string
  Header :: "(string \<times> string) list"

record response =
  StatusCode :: int
  Body :: string

text \<open>
  What the program does to the outside, in order: transactions on the store, HTTP
  requests sent, client-credentials grants requested, and reads of the publisher
  registry.
\<close>

datatype event =
    DBView string
  | DBUpdate string string
  | HTTPDo request
  | OAuth2Token string string
  | GetAllPublisher

text \<open>
  The state is the content of \<open>ConfigBucket\<close> (created at start-up by another file of the
  package) together with the events so far.
\<close>

record state =
  bucket :: "string \<rightharpoonup> string"
  trace :: "event list"

text \<open>
  The collaborators the file calls and does not define, as parameters:
  \<^item> \<open>db_put k v\<close>: the outcome of the write transaction that puts \<open>v\<close> under \<open>k\<close>
    (\<open>None\<close> when it commits, the store's error when \<open>Put\<close> or the commit fails, in
    which case the transaction is rolled back);
  \<^item> \<open>new_request_fails u\<close>: whether \<open>http.NewRequest\<close> returns an error for the URL;
  \<^item> \<open>http_do r\<close>: \<open>http.DefaultClient.Do\<close>, a transport error or the response;
  \<^item> \<open>oauth2_token id secret\<close>: the client-credentials grant at Twitch's token
    endpoint, an error or the \<open>AccessToken\<close> of the token;
  \<^item> \<open>all_publisher\<close>: \<open>getAllPublisher\<close>, defined in another file of the package;
  \<^item> \<open>decode_streams b\<close>: the JSON decoding of a body into \<open>TwitchStreamsResponse\<close>,
    an error or its \<open>Data\<close>.
\<close>

record world =
  db_put :: "string \<Rightarrow> string \<Rightarrow> error option"
  new_request_fails :: "string \<Rightarrow> bool"
  http_do :: "request \<Rightarrow> error + response"
  oauth2_token :: "string \<Rightarrow> string \<Rightarrow> error + string"
  all_publisher :: "error + Publisher list"
  decode_streams :: "string \<Rightarrow> error + StreamData list"

definition record_event :: "event \<Rightarrow> state \<Rightarrow> state" where
  "record_event e s = s\<lparr>trace := trace s @ [e]\<rparr>"

section \<open>The token cache\<close>

text \<open>
  \<open>getCachedAccessToken\<close>: a read-only transaction; \<open>Get\<close> gives nil for a missing key,
  and \<open>len\<close> of nil is 0.
\<close>

definition getCachedAccessToken :: "state \<Rightarrow> string result \<times> state" where
  "getCachedAccessToken s =
     (let tokenBytes = (case bucket s tokenKey of None \<Rightarrow> [] | Some v \<Rightarrow> v);
          s1 = record_event (DBView tokenKey) s
      in if length tokenBytes < 1 then (Err ErrCachedTokenNotFound, s1)
         else (Ok tokenBytes, s1))"

text \<open>
  \<open>updateCachedAccessToken\<close>: the error of \<open>Put\<close> is assigned to \<open>err\<close> and returned from
  the closure, so that the transaction rolls back; the value of \<open>c.DB.Update\<close> is
  dropped and the function ends with \<open>return nil\<close>.
\<close>

definition updateCachedAccessToken :: "world \<Rightarrow> string \<Rightarrow> state \<Rightarrow> unit result \<times> state" where
  "updateCachedAccessToken w accessToken s =
     (if accessToken = [] then (Err ErrNoTokenProvided, s)
      else
        let s1 = record_event (DBUpdate tokenKey accessToken) s;
            err = db_put w tokenKey accessToken;
            s2 = (case err of
                    None \<Rightarrow> s1\<lparr>bucket := (bucket s1)(tokenKey \<mapsto> accessToken)\<rparr>
                  | Some e \<Rightarrow> s1)
        in (Ok (), s2))"

section \<open>Validation and refresh\<close>

definition validateRequest :: "string \<Rightarrow> request" where
  "validateRequest accessToken =
     \<lparr>Method = ''GET'', URL = validateURL,
      Header = [(''Content-Type'', ''application/json''),
                (''Authorization'', ''OAuth '' @ accessToken)]\<rparr>"

definition validateAccessToken :: "world \<Rightarrow> string \<Rightarrow> state \<Rightarrow> unit result \<times> state" where
  "validateAccessToken w accessToken s =
     (if new_request_fails w validateURL then (Panic, s)
      else
        let r = validateRequest accessToken;
            s1 = record_event (HTTPDo r) s
        in case http_do w r of
             Inl err \<Rightarrow> (Err err, s1)
           | Inr resp \<Rightarrow>
               if StatusCode resp \<noteq> 200 then (Err ErrValidationStatus, s1)
               else (Ok (), s1))"

definition getNewAuthToken :: "Controller \<Rightarrow> world \<Rightarrow> state \<Rightarrow> unit result \<times> state" where
  "getNewAuthToken c w s =
     (let s1 = record_event
                 (OAuth2Token (TwitchClientID (Config c)) (TwitchClientSecret (Config c))) s
      in case oauth2_token w (TwitchClientID (Config c)) (TwitchClientSecret (Config c)) of
           Inl err \<Rightarrow> (Err err, s1)
         | Inr token \<Rightarrow>
             (case updateCachedAccessToken w token s1 of
                (Ok u, s2) \<Rightarrow> (Ok (), s2)
              | (Err err, s2) \<Rightarrow> (Err err, s2)
              | (Panic, s2) \<Rightarrow> (Panic, s2)))"

definition validateClientCredentials :: "Controller \<Rightarrow> unit result" where
  "validateClientCredentials c =
     (if TwitchClientID (Config c) = defaultClientID then Err ErrDefaultClientID
      else if TwitchClientSecret (Config c) = defaultClientSecret then Err ErrDefaultClientSecret
      else Ok ())"

text \<open>\<open>twitchAuthToken\<close>: read, validate, refresh when validation failed, read again.\<close>

definition twitchAuthToken :: "Controller \<Rightarrow> world \<Rightarrow> state \<Rightarrow> string result \<times> state" where
  "twitchAuthToken c w s =
     (case getCachedAccessToken s of
        (Err err, s1) \<Rightarrow> (Err err, s1)
      | (Panic, s1) \<Rightarrow> (Panic, s1)
      | (Ok token, s1) \<Rightarrow>
          (case validateAccessToken w token s1 of
             (Panic, s2) \<Rightarrow> (Panic, s2)
           | (Ok u, s2) \<Rightarrow> getCachedAccessToken s2
           | (Err err, s2) \<Rightarrow>
               (case getNewAuthToken c w s2 of
                  (Err err', s3) \<Rightarrow> (Err err', s3)
                | (Panic, s3) \<Rightarrow> (Panic, s3)
                | (Ok u, s3) \<Rightarrow> getCachedAccessToken s3)))"

section \<open>The streams query\<close>

text \<open>
  The loop of \<open>getStreams\<close> over the publishers, with \<open>userQuery\<close> as the accumulator;
  \<open>fmt.Sprintf("user_login=%s", name)\<close> is the prefix followed by the name.
\<close>

fun userQueryLoop :: "Publisher list \<Rightarrow> string \<Rightarrow> string" where
  "userQueryLoop [] userQuery = userQuery"
| "userQueryLoop (p # ps) userQuery =
     (if TwitchStream p = [] then userQueryLoop ps userQuery
      else userQueryLoop ps
             ((if userQuery \<noteq> [] then userQuery @ ''&'' else userQuery)
                @ (''user_login='' @ Name p)))"

definition streamsRequest :: "Controller \<Rightarrow> string \<Rightarrow> string \<Rightarrow> request" where
  "streamsRequest c userStreamURL accessToken =
     \<lparr>Method = ''GET'', URL = userStreamURL,
      Header = [(''Content-Type'', ''application/json''),
                (''client-id'', TwitchClientID (Config c)),
                (''Authorization'', ''Bearer '' @ accessToken)]\<rparr>"

definition getStreams :: "Controller \<Rightarrow> world \<Rightarrow> state \<Rightarrow> StreamData list result \<times> state" where
  "getStreams c w s =
     (case validateClientCredentials c of
        Err err \<Rightarrow> (Err err, s)
      | Panic \<Rightarrow> (Panic, s)
      | Ok u \<Rightarrow>
          (case twitchAuthToken c w s of
             (Err err, s1) \<Rightarrow> (Err err, s1)
           | (Panic, s1) \<Rightarrow> (Panic, s1)
           | (Ok accessToken, s1) \<Rightarrow>
               (let s2 = record_event GetAllPublisher s1
                in case all_publisher w of
                     Inl err \<Rightarrow> (Err err, s2)
                   | Inr publishers \<Rightarrow>
                       (let userQuery = userQueryLoop publishers [];
                            userStreamURL = streamsURL @ userQuery
                        in if new_request_fails w userStreamURL then (Panic, s2)
                           else
                             let r = streamsRequest c userStreamURL accessToken;
                                 s3 = record_event (HTTPDo r) s2
                             in case http_do w r of
                                  Inl err \<Rightarrow> (Err err, s3)
                                | Inr resp \<Rightarrow>
                                    (case decode_streams w (Body resp) of
                                       Inl err \<Rightarrow> (Err err, s3)
                                     | Inr data \<Rightarrow> (Ok data, s3))))))"

section \<open>Properties stated over the model\<close>

text \<open>
  The persisted token is absent or non-empty; \<open>emptyWrite\<close> marks a write transaction
  that puts an empty value; \<open>refreshCalls\<close> counts the client-credentials grants in a
  trace.
\<close>

definition tokenInvariant :: "state \<Rightarrow> bool" where
  "tokenInvariant s \<longleftrightarrow> bucket s tokenKey \<noteq> Some []"

fun emptyWrite :: "event \<Rightarrow> bool" where
  "emptyWrite (DBUpdate k v) = (v = [])"
| "emptyWrite e = False"

fun isRefresh :: "event \<Rightarrow> bool" where
  "isRefresh (OAuth2Token i x) = True"
| "isRefresh e = False"

definition refreshCalls :: "event list \<Rightarrow> nat" where
  "refreshCalls tr = length (filter isRefresh tr)"

text \<open>
  The query string as the specification words it: the terms \<open>user_login=<Name>\<close> of the
  publishers with a non-empty \<open>TwitchStream\<close>, in list order, joined by \<open>&\<close>.
\<close>

fun joinAmp :: "string list \<Rightarrow> string" where
  "joinAmp [] = []"
| "joinAmp [x] = x"
| "joinAmp (x # y # ys) = x @ ''&'' @ joinAmp (y # ys)"

definition userQuerySpec :: "Publisher list \<Rightarrow> string" where
  "userQuerySpec ps =
     joinAmp (map (\<lambda>p. ''user_login='' @ Name p) (filter (\<lambda>p. TwitchStream p \<noteq> []) ps))"

subsection \<open>Concrete scenarios\<close>

text \<open>
  The scenario of the specification: the token \<open>tok1\<close> fails introspection with status
  401, every other token is accepted, the grant returns \<open>tok2\<close>, the store commits every
  write. \<open>readOnlyWorld\<close> differs in the store, whose write transactions fail;
  \<open>idleWorld\<close> in the registry, where no publisher has a stream channel.
\<close>

definition exampleController :: Controller where
  "exampleController =
     \<lparr>Config = \<lparr>TwitchClientID = ''id42'', TwitchClientSecret = ''s3cret''\<rparr>\<rparr>"

definition placeholderController :: Controller where
  "placeholderController =
     \<lparr>Config = \<lparr>TwitchClientID = ''id42'', TwitchClientSecret = ''abcd1234''\<rparr>\<rparr>"

definition examplePublishers :: "Publisher list" where
  "examplePublishers =
     [\<lparr>Name = ''alice'', TwitchStream = ''alice_tv''\<rparr>,
      \<lparr>Name = ''bob'', TwitchStream = []\<rparr>,
      \<lparr>Name = ''alice'', TwitchStream = ''al2''\<rparr>]"

definition exampleWorld :: world where
  "exampleWorld =
     \<lparr>db_put = (\<lambda>k v. None),
      new_request_fails = (\<lambda>u. False),
      http_do = (\<lambda>r. if r = validateRequest ''tok1''
                      then Inr \<lparr>StatusCode = 401, Body = []\<rparr>
                      else Inr \<lparr>StatusCode = 200, Body = ''{}''\<rparr>),
      oauth2_token = (\<lambda>i x. Inr ''tok2''),
      all_publisher = Inr examplePublishers,
      decode_streams = (\<lambda>b. Inr [])\<rparr>"

definition readOnlyWorld :: world where
  "readOnlyWorld =
     exampleWorld\<lparr>db_put := (\<lambda>k v. Some (External ''database is in read-only mode''))\<rparr>"

definition idleWorld :: world where
  "idleWorld = exampleWorld\<lparr>all_publisher := Inr [\<lparr>Name = ''bob'', TwitchStream = []\<rparr>]\<rparr>"

definition stateWith :: "string \<Rightarrow> state" where
  "stateWith t = \<lparr>bucket = [tokenKey \<mapsto> t], trace = []\<rparr>"

definition emptyState :: state where
  "emptyState = \<lparr>bucket = Map.empty, trace = []\<rparr>"

section \<open>Lemmas on the cache and on validation\<close>

lemma bucket_record_event [simp]: "bucket (record_event e s) = bucket s"
  by (simp add: record_event_def)

lemma trace_record_event [simp]: "trace (record_event e s) = trace s @ [e]"
  by (simp add: record_event_def)

lemma getCachedAccessToken_absent:
  "bucket s tokenKey = None \<or> bucket s tokenKey = Some [] \<Longrightarrow>
   getCachedAccessToken s = (Err ErrCachedTokenNotFound, record_event (DBView tokenKey) s)"
  by (auto simp: getCachedAccessToken_def)

lemma getCachedAccessToken_present:
  "bucket s tokenKey = Some t \<Longrightarrow> t \<noteq> [] \<Longrightarrow>
   getCachedAccessToken s = (Ok t, record_event (DBView tokenKey) s)"
  by (cases t) (simp_all add: getCachedAccessToken_def)

lemma getCachedAccessToken_snd: "snd (getCachedAccessToken s) = record_event (DBView tokenKey) s"
  by (simp add: getCachedAccessToken_def Let_def)

text \<open>The verdict of \<open>validateAccessToken\<close> does not depend on the state it is called in.\<close>

lemma validateAccessToken_Ok:
  "fst (validateAccessToken w t s) = Ok () \<Longrightarrow>
   validateAccessToken w t s' = (Ok (), record_event (HTTPDo (validateRequest t)) s')"
  by (auto simp: validateAccessToken_def Let_def split: if_splits sum.splits)

lemma validateAccessToken_Err:
  "fst (validateAccessToken w t s) = Err e \<Longrightarrow>
   validateAccessToken w t s' = (Err e, record_event (HTTPDo (validateRequest t)) s')"
  by (auto simp: validateAccessToken_def Let_def split: if_splits sum.splits)

lemma validateAccessToken_snd:
  "bucket (snd (validateAccessToken w t s)) = bucket s \<and>
   list_ex emptyWrite (trace (snd (validateAccessToken w t s))) = list_ex emptyWrite (trace s)"
  by (simp add: validateAccessToken_def Let_def split: sum.splits)

lemma updateCachedAccessToken_commit:
  "t \<noteq> [] \<Longrightarrow> db_put w tokenKey t = None \<Longrightarrow>
   updateCachedAccessToken w t s =
     (Ok (), (record_event (DBUpdate tokenKey t) s)\<lparr>bucket := (bucket s)(tokenKey \<mapsto> t)\<rparr>)"
  by (simp add: updateCachedAccessToken_def Let_def)

lemma updateCachedAccessToken_inv:
  "(tokenInvariant s \<longrightarrow> tokenInvariant (snd (updateCachedAccessToken w a s))) \<and>
   list_ex emptyWrite (trace (snd (updateCachedAccessToken w a s))) = list_ex emptyWrite (trace s)"
  by (simp add: updateCachedAccessToken_def tokenInvariant_def Let_def split: option.splits)

lemma getNewAuthToken_snd:
  "snd (getNewAuthToken c w s) =
     (let s1 = record_event
                 (OAuth2Token (TwitchClientID (Config c)) (TwitchClientSecret (Config c))) s
      in case oauth2_token w (TwitchClientID (Config c)) (TwitchClientSecret (Config c)) of
           Inl err \<Rightarrow> s1
         | Inr token \<Rightarrow> snd (updateCachedAccessToken w token s1))"
  by (simp add: getNewAuthToken_def Let_def split: sum.splits prod.splits result.splits)

lemma getNewAuthToken_inv:
  "(tokenInvariant s \<longrightarrow> tokenInvariant (snd (getNewAuthToken c w s))) \<and>
   list_ex emptyWrite (trace (snd (getNewAuthToken c w s))) = list_ex emptyWrite (trace s)"
proof -
  let ?s1 = "record_event
               (OAuth2Token (TwitchClientID (Config c)) (TwitchClientSecret (Config c))) s"
  have "tokenInvariant ?s1 = tokenInvariant s"
    and "list_ex emptyWrite (trace ?s1) = list_ex emptyWrite (trace s)"
    by (simp_all add: tokenInvariant_def)
  then show ?thesis
    using updateCachedAccessToken_inv [of ?s1 w]
    by (simp add: getNewAuthToken_snd Let_def split: sum.splits)
qed

lemma twitchAuthToken_snd:
  "snd (twitchAuthToken c w s) =
     (let s1 = record_event (DBView tokenKey) s
      in case fst (getCachedAccessToken s) of
           Ok token \<Rightarrow>
             (let s2 = snd (validateAccessToken w token s1)
              in case fst (validateAccessToken w token s1) of
                   Ok u \<Rightarrow> record_event (DBView tokenKey) s2
                 | Err err \<Rightarrow>
                     (case fst (getNewAuthToken c w s2) of
                        Ok u \<Rightarrow> record_event (DBView tokenKey) (snd (getNewAuthToken c w s2))
                      | _ \<Rightarrow> snd (getNewAuthToken c w s2))
                 | Panic \<Rightarrow> s2)
         | _ \<Rightarrow> s1)"
  by (simp add: twitchAuthToken_def getCachedAccessToken_def Let_def
        split: prod.splits result.splits)

lemma twitchAuthToken_inv:
  "(tokenInvariant s \<longrightarrow> tokenInvariant (snd (twitchAuthToken c w s))) \<and>
   list_ex emptyWrite (trace (snd (twitchAuthToken c w s))) = list_ex emptyWrite (trace s)"
proof -
  have ev: "tokenInvariant (record_event (DBView tokenKey) x) = tokenInvariant x"
    "list_ex emptyWrite (trace (record_event (DBView tokenKey) x)) = list_ex emptyWrite (trace x)"
    for x
    by (simp_all add: tokenInvariant_def)
  have va: "tokenInvariant (snd (validateAccessToken w t x)) = tokenInvariant x"
    "list_ex emptyWrite (trace (snd (validateAccessToken w t x))) = list_ex emptyWrite (trace x)"
    for t x
    using validateAccessToken_snd [of w t x] by (simp_all add: tokenInvariant_def)
  show ?thesis
    using getNewAuthToken_inv [of _ c w]
    by (simp add: twitchAuthToken_snd Let_def ev va split: result.splits)
qed

section \<open>Lemmas on the query loop\<close>

lemma joinAmp_Cons: "joinAmp (x # ys) = (if ys = [] then x else x @ ''&'' @ joinAmp ys)"
  by (cases ys) simp_all

text \<open>
  The loop with any accumulator: a term is never empty, so once a term is appended the
  accumulator stays non-empty and every later term is preceded by \<open>&\<close>.
\<close>

lemma userQueryLoop_acc:
  "userQueryLoop ps acc =
     (let terms = map (\<lambda>p. ''user_login='' @ Name p) (filter (\<lambda>p. TwitchStream p \<noteq> []) ps)
      in if terms = [] then acc
         else if acc = [] then joinAmp terms
         else acc @ ''&'' @ joinAmp terms)"
proof (induction ps arbitrary: acc)
  case Nil
  show ?case by simp
next
  case (Cons p ps)
  show ?case
    by (simp add: Cons.IH Let_def joinAmp_Cons del: joinAmp.simps)
qed

lemma userQueryLoop_skip:
  "\<forall>p \<in> set ps. TwitchStream p = [] \<Longrightarrow> userQueryLoop ps acc = acc"
  by (induction ps arbitrary: acc) simp_all

lemmas scenario_defs =
  exampleWorld_def readOnlyWorld_def idleWorld_def exampleController_def
  placeholderController_def examplePublishers_def stateWith_def emptyState_def

section \<open>The refresh, with a committed and with a failed write\<close>

text \<open>
  With a non-empty cached token whose validation fails, \<open>twitchAuthToken\<close> requests
  exactly one client-credentials grant. When the grant returns a non-empty access token
  and the store commits the write of it, the token returned is the access token of the
  grant, and a further read of the cache gives the same token. The scenario of the
  specification is an instance: \<open>tok1\<close> is rejected, the grant returns \<open>tok2\<close>, and
  \<open>tok2\<close> is returned.
\<close>

lemma twitchAuthToken_refresh_committed:
  assumes "bucket s tokenKey = Some t" and "t \<noteq> []"
    and "fst (validateAccessToken w t s) = Err e"
  shows "refreshCalls (trace (snd (twitchAuthToken c w s))) = refreshCalls (trace s) + 1 \<and>
         (\<forall>tok. oauth2_token w (TwitchClientID (Config c)) (TwitchClientSecret (Config c)) = Inr tok
                \<and> tok \<noteq> [] \<and> db_put w tokenKey tok = None \<longrightarrow>
            fst (twitchAuthToken c w s) = Ok tok \<and>
            fst (getCachedAccessToken (snd (twitchAuthToken c w s))) = Ok tok)"
proof -
  let ?s2 = "record_event (HTTPDo (validateRequest t)) (record_event (DBView tokenKey) s)"
  have start: "twitchAuthToken c w s =
      (case getNewAuthToken c w ?s2 of
         (Err err', s3) \<Rightarrow> (Err err', s3)
       | (Panic, s3) \<Rightarrow> (Panic, s3)
       | (Ok u, s3) \<Rightarrow> getCachedAccessToken s3)"
    using assms(1,2) validateAccessToken_Err [OF assms(3)]
    by (simp add: twitchAuthToken_def getCachedAccessToken_present)
  have count: "refreshCalls (trace (snd (twitchAuthToken c w s))) = refreshCalls (trace s) + 1"
    unfolding start
    by (simp add: getNewAuthToken_def updateCachedAccessToken_def getCachedAccessToken_def Let_def
          refreshCalls_def split: sum.splits option.splits)
  have fresh: "fst (twitchAuthToken c w s) = Ok tok \<and>
      fst (getCachedAccessToken (snd (twitchAuthToken c w s))) = Ok tok"
    if "oauth2_token w (TwitchClientID (Config c)) (TwitchClientSecret (Config c)) = Inr tok"
      and "tok \<noteq> []" and "db_put w tokenKey tok = None" for tok
    unfolding start using that
    by (simp add: getNewAuthToken_def updateCachedAccessToken_commit getCachedAccessToken_present)
  show ?thesis using count fresh by blast
qed

lemma refresh_scenario:
  "bucket (stateWith ''tok1'') tokenKey = Some ''tok1'' \<and>
   fst (validateAccessToken exampleWorld ''tok1'' (stateWith ''tok1'')) = Err ErrValidationStatus \<and>
   oauth2_token exampleWorld ''id42'' ''s3cret'' = Inr ''tok2'' \<and>
   db_put exampleWorld tokenKey ''tok2'' = None \<and>
   refreshCalls (trace (snd (twitchAuthToken exampleController exampleWorld (stateWith ''tok1''))))
     = 1 \<and>
   fst (twitchAuthToken exampleController exampleWorld (stateWith ''tok1'')) = Ok ''tok2'' \<and>
   fst (getCachedAccessToken
          (snd (twitchAuthToken exampleController exampleWorld (stateWith ''tok1'')))) = Ok ''tok2''"
proof -
  have b: "bucket (stateWith ''tok1'') tokenKey = Some ''tok1''"
    by (simp add: stateWith_def)
  have n: "''tok1'' \<noteq> []"
    by simp
  have v: "fst (validateAccessToken exampleWorld ''tok1'' (stateWith ''tok1''))
      = Err ErrValidationStatus"
    by (simp add: validateAccessToken_def exampleWorld_def)
  have g: "oauth2_token exampleWorld (TwitchClientID (Config exampleController))
      (TwitchClientSecret (Config exampleController)) = Inr ''tok2''"
    by (simp add: exampleWorld_def)
  have g': "oauth2_token exampleWorld ''id42'' ''s3cret'' = Inr ''tok2''"
    by (simp add: exampleWorld_def)
  have p: "db_put exampleWorld tokenKey ''tok2'' = None"
    by (simp add: exampleWorld_def)
  have r: "refreshCalls (trace (stateWith ''tok1'')) = 0"
    by (simp add: stateWith_def refreshCalls_def)
  show ?thesis
    using twitchAuthToken_refresh_committed [OF b n v, of exampleController] b v g g' p r
    by simp
qed

text \<open>
  For a non-empty token \<open>updateCachedAccessToken\<close> reports success whatever the store
  answers.
\<close>

lemma updateCachedAccessToken_reports_success:
  "accessToken \<noteq> [] \<Longrightarrow> fst (updateCachedAccessToken w accessToken s) = Ok ()"
  by (simp add: updateCachedAccessToken_def Let_def)

text \<open>
  The round trip through the cache, when the store commits the write: for every
  non-empty token \<open>T\<close> and every content of the bucket, persisting \<open>T\<close> and then reading
  returns \<open>T\<close> with no error.
\<close>

lemma update_then_read_committed:
  assumes "T \<noteq> []" and "db_put w tokenKey T = None"
  shows "fst (updateCachedAccessToken w T s) = Ok () \<and>
         fst (getCachedAccessToken (snd (updateCachedAccessToken w T s))) = Ok T"
  using assms by (simp add: updateCachedAccessToken_commit getCachedAccessToken_present)

lemma roundtrip_scenario:
  "db_put exampleWorld tokenKey ''tok2'' = None \<and>
   fst (updateCachedAccessToken exampleWorld ''tok2'' (stateWith ''tok1'')) = Ok () \<and>
   fst (getCachedAccessToken
          (snd (updateCachedAccessToken exampleWorld ''tok2'' (stateWith ''tok1'')))) = Ok ''tok2''"
  using update_then_read_committed [of "''tok2''" exampleWorld "stateWith ''tok1''"]
  by (simp add: exampleWorld_def)

text \<open>
  The loop of \<open>getStreams\<close>, started from the empty string, computes the query string of
  the specification.
\<close>

lemma userQueryLoop_spec: "userQueryLoop ps [] = userQuerySpec ps"
  by (simp add: userQueryLoop_acc userQuerySpec_def Let_def)

section \<open>The claims\<close>

text \<open>
  C1. The specification says that a write failure of the store propagates from
  \<open>updateCachedAccessToken\<close> to the caller. The code drops it: with a store whose write
  transaction fails, persisting the non-empty token \<open>tok2\<close> over \<open>tok1\<close> reports success
  (\<open>return nil\<close>) and the store still holds \<open>tok1\<close>.
\<close>

theorem updateCachedAccessToken_drops_write_error:
  "db_put readOnlyWorld tokenKey ''tok2'' = Some (External ''database is in read-only mode'') \<and>
   fst (updateCachedAccessToken readOnlyWorld ''tok2'' (stateWith ''tok1'')) = Ok () \<and>
   bucket (snd (updateCachedAccessToken readOnlyWorld ''tok2'' (stateWith ''tok1''))) tokenKey
     = Some ''tok1''"
  by (simp add: scenario_defs updateCachedAccessToken_def tokenKey_def)

text \<open>
  C2. When \<open>TwitchClientID\<close> or \<open>TwitchClientSecret\<close> equals its placeholder,
  \<open>getStreams\<close> returns the corresponding configuration error and the state is the one
  it started in: no event is recorded, so no token read, no validation, no refresh and
  no streams request took place.
\<close>

theorem getStreams_placeholder_credentials:
  assumes "TwitchClientID (Config c) = defaultClientID \<or>
           TwitchClientSecret (Config c) = defaultClientSecret"
  shows "getStreams c w s =
           (Err (if TwitchClientID (Config c) = defaultClientID then ErrDefaultClientID
                 else ErrDefaultClientSecret), s)"
  using assms by (auto simp: getStreams_def validateClientCredentials_def)

theorem getStreams_placeholder_credentials_witness:
  "TwitchClientSecret (Config placeholderController) = defaultClientSecret \<and>
   getStreams placeholderController exampleWorld (stateWith ''tok1'') =
     (Err ErrDefaultClientSecret, stateWith ''tok1'')"
  using getStreams_placeholder_credentials
          [of placeholderController exampleWorld "stateWith ''tok1''"]
  by (simp add: placeholderController_def defaultClientSecret_def defaultClientID_def)

text \<open>
  C3. The specification says that after a failed validation \<open>twitchAuthToken\<close> makes one
  refresh and, the refresh succeeding, returns the access token of that refresh. The
  code does so only when the store commits the write. With a store whose write
  transaction fails: the cached \<open>tok1\<close> is rejected, one grant is requested and returns
  \<open>tok2\<close>, \<open>getNewAuthToken\<close> reports success, and \<open>twitchAuthToken\<close> returns the rejected
  \<open>tok1\<close> with no error.
\<close>

theorem twitchAuthToken_returns_stale_token:
  "fst (validateAccessToken readOnlyWorld ''tok1'' (stateWith ''tok1'')) = Err ErrValidationStatus \<and>
   oauth2_token readOnlyWorld ''id42'' ''s3cret'' = Inr ''tok2'' \<and>
   fst (getNewAuthToken exampleController readOnlyWorld (stateWith ''tok1'')) = Ok () \<and>
   refreshCalls (trace (snd (twitchAuthToken exampleController readOnlyWorld (stateWith ''tok1''))))
     = 1 \<and>
   fst (twitchAuthToken exampleController readOnlyWorld (stateWith ''tok1'')) = Ok ''tok1''"
  by (simp add: scenario_defs twitchAuthToken_def getCachedAccessToken_def
        validateAccessToken_def getNewAuthToken_def updateCachedAccessToken_def Let_def
        refreshCalls_def)

text \<open>
  C4. The specification says that, for every non-empty token \<open>T\<close> and every prior state
  of the cache, persisting \<open>T\<close> with \<open>updateCachedAccessToken\<close> and then reading with
  \<open>getCachedAccessToken\<close> returns \<open>T\<close> with no error. The code does so only when the
  store commits the write. With a store whose write transaction fails and \<open>tok1\<close>
  cached: persisting \<open>tok2\<close> reports success, and the read that follows returns \<open>tok1\<close>
  with no error.
\<close>

theorem roundtrip_reads_stale_token:
  "fst (updateCachedAccessToken readOnlyWorld ''tok2'' (stateWith ''tok1'')) = Ok () \<and>
   fst (getCachedAccessToken
          (snd (updateCachedAccessToken readOnlyWorld ''tok2'' (stateWith ''tok1''))))
     = Ok ''tok1''"
  by (simp add: scenario_defs updateCachedAccessToken_def getCachedAccessToken_def Let_def)

text \<open>
  C5. Persisting the empty string returns the invalid-argument error ("no token
  provided") and leaves the state as it was: the stored value is unchanged and no write
  transaction is recorded.
\<close>

theorem updateCachedAccessToken_empty:
  "updateCachedAccessToken w [] s = (Err ErrNoTokenProvided, s)"
  by (simp add: updateCachedAccessToken_def)

theorem updateCachedAccessToken_empty_witness:
  "updateCachedAccessToken readOnlyWorld [] (stateWith ''tok1'')
     = (Err ErrNoTokenProvided, stateWith ''tok1'')"
  using updateCachedAccessToken_empty [of readOnlyWorld "stateWith ''tok1''"] by simp

text \<open>
  C6. When the token key is absent or holds a zero-length value, \<open>getCachedAccessToken\<close>
  fails with the not-found error, and \<open>twitchAuthToken\<close> fails with the same error
  having done nothing but that one read: no validation, no refresh.
\<close>

theorem cold_start_not_found:
  assumes "bucket s tokenKey = None \<or> bucket s tokenKey = Some []"
  shows "getCachedAccessToken s = (Err ErrCachedTokenNotFound, record_event (DBView tokenKey) s) \<and>
         twitchAuthToken c w s = (Err ErrCachedTokenNotFound, record_event (DBView tokenKey) s)"
  using getCachedAccessToken_absent [OF assms] by (simp add: twitchAuthToken_def)

theorem cold_start_not_found_witness:
  "bucket emptyState tokenKey = None \<and>
   fst (getCachedAccessToken emptyState) = Err ErrCachedTokenNotFound \<and>
   fst (twitchAuthToken exampleController exampleWorld emptyState) = Err ErrCachedTokenNotFound \<and>
   trace (snd (twitchAuthToken exampleController exampleWorld emptyState)) = [DBView tokenKey]"
  using cold_start_not_found [of emptyState exampleController exampleWorld]
  by (simp add: emptyState_def)

text \<open>
  C7. With a non-empty cached token that passes validation, \<open>twitchAuthToken\<close> returns
  the cached token, leaves the bucket as it was, and does exactly a read, a validation
  and a read: no refresh. Called again on the resulting state it returns the same token.
\<close>

theorem twitchAuthToken_valid_cached:
  assumes "bucket s tokenKey = Some t" and "t \<noteq> []"
    and "fst (validateAccessToken w t s) = Ok ()"
  shows "fst (twitchAuthToken c w s) = Ok t \<and>
         bucket (snd (twitchAuthToken c w s)) = bucket s \<and>
         trace (snd (twitchAuthToken c w s)) =
           trace s @ [DBView tokenKey, HTTPDo (validateRequest t), DBView tokenKey] \<and>
         fst (twitchAuthToken c w (snd (twitchAuthToken c w s))) = Ok t"
proof -
  have run: "twitchAuthToken c w s' =
      (Ok t, record_event (DBView tokenKey)
               (record_event (HTTPDo (validateRequest t)) (record_event (DBView tokenKey) s')))"
    if "bucket s' tokenKey = Some t" for s'
    using that assms(2) validateAccessToken_Ok [OF assms(3)]
    by (simp add: twitchAuthToken_def getCachedAccessToken_present)
  have again: "bucket (snd (twitchAuthToken c w s)) tokenKey = Some t"
    using run [OF assms(1)] assms(1) by simp
  show ?thesis
    using run [OF assms(1)] run [OF again] by simp
qed

theorem twitchAuthToken_valid_cached_witness:
  "bucket (stateWith ''tok0'') tokenKey = Some ''tok0'' \<and>
   fst (validateAccessToken exampleWorld ''tok0'' (stateWith ''tok0'')) = Ok () \<and>
   fst (twitchAuthToken exampleController exampleWorld (stateWith ''tok0'')) = Ok ''tok0'' \<and>
   refreshCalls (trace (snd (twitchAuthToken exampleController exampleWorld (stateWith ''tok0''))))
     = 0"
proof -
  have b: "bucket (stateWith ''tok0'') tokenKey = Some ''tok0''"
    by (simp add: stateWith_def)
  have n: "''tok0'' \<noteq> []"
    by simp
  have v: "fst (validateAccessToken exampleWorld ''tok0'' (stateWith ''tok0'')) = Ok ()"
    by (simp add: validateAccessToken_def exampleWorld_def validateRequest_def)
  have t: "trace (stateWith ''tok0'') = []"
    by (simp add: stateWith_def)
  show ?thesis
    using twitchAuthToken_valid_cached [OF b n v, of exampleController] b v t
    by (simp add: refreshCalls_def)
qed

text \<open>
  C8. The query string that \<open>getStreams\<close> builds is the join by \<open>&\<close> of the terms
  \<open>user_login=<Name>\<close>, one for each publisher whose \<open>TwitchStream\<close> is non-empty, in
  list order: the key is the \<open>Name\<close> field, publishers without a stream channel
  contribute nothing, repeated names are kept. Its loop computes that string, and
  whenever the steps before the loop succeed, the URL that \<open>getStreams\<close> hands to
  \<open>http.NewRequest\<close> and then requests is the streams endpoint followed by exactly
  that string.
\<close>

theorem getStreams_query_string:
  "userQueryLoop ps [] = userQuerySpec ps \<and>
   (validateClientCredentials c = Ok () \<and> twitchAuthToken c w s = (Ok accessToken, s1) \<and>
    all_publisher w = Inr ps \<longrightarrow>
      getStreams c w s =
        (if new_request_fails w (streamsURL @ userQuerySpec ps)
         then (Panic, record_event GetAllPublisher s1)
         else ((case http_do w (streamsRequest c (streamsURL @ userQuerySpec ps) accessToken) of
                  Inl err \<Rightarrow> Err err
                | Inr resp \<Rightarrow>
                    (case decode_streams w (Body resp) of
                       Inl err \<Rightarrow> Err err
                     | Inr data \<Rightarrow> Ok data)),
               record_event
                 (HTTPDo (streamsRequest c (streamsURL @ userQuerySpec ps) accessToken))
                 (record_event GetAllPublisher s1))) \<and>
      URL (streamsRequest c (streamsURL @ userQuerySpec ps) accessToken)
        = streamsURL @ userQuerySpec ps)"
proof -
  have run: "getStreams c w s =
      (if new_request_fails w (streamsURL @ userQuerySpec ps)
       then (Panic, record_event GetAllPublisher s1)
       else ((case http_do w (streamsRequest c (streamsURL @ userQuerySpec ps) accessToken) of
                Inl err \<Rightarrow> Err err
              | Inr resp \<Rightarrow>
                  (case decode_streams w (Body resp) of
                     Inl err \<Rightarrow> Err err
                   | Inr data \<Rightarrow> Ok data)),
             record_event
               (HTTPDo (streamsRequest c (streamsURL @ userQuerySpec ps) accessToken))
               (record_event GetAllPublisher s1)))"
    if "validateClientCredentials c = Ok ()" and "twitchAuthToken c w s = (Ok accessToken, s1)"
      and "all_publisher w = Inr ps"
    using that by (simp add: getStreams_def userQueryLoop_spec Let_def split: sum.splits)
  have url: "URL (streamsRequest c (streamsURL @ userQuerySpec ps) accessToken)
      = streamsURL @ userQuerySpec ps"
    by (simp add: streamsRequest_def)
  show ?thesis
    using run url userQueryLoop_spec by blast
qed

theorem getStreams_query_string_witness:
  "userQueryLoop examplePublishers [] = ''user_login=alice&user_login=alice'' \<and>
   validateClientCredentials exampleController = Ok () \<and>
   all_publisher exampleWorld = Inr examplePublishers \<and>
   fst (twitchAuthToken exampleController exampleWorld (stateWith ''tok0'')) = Ok ''tok0'' \<and>
   fst (getStreams exampleController exampleWorld (stateWith ''tok0'')) = Ok [] \<and>
   last (trace (snd (getStreams exampleController exampleWorld (stateWith ''tok0'')))) =
     HTTPDo \<lparr>Method = ''GET'',
             URL = ''https://api.twitch.tv/helix/streams/?user_login=alice&user_login=alice'',
             Header = [(''Content-Type'', ''application/json''),
                       (''client-id'', ''id42''),
                       (''Authorization'', ''Bearer tok0'')]\<rparr>"
proof -
  let ?s1 = "snd (twitchAuthToken exampleController exampleWorld (stateWith ''tok0''))"
  let ?q = "''user_login=alice&user_login=alice''"
  have q: "userQuerySpec examplePublishers = ?q"
    by (simp add: userQuerySpec_def examplePublishers_def)
  have c: "validateClientCredentials exampleController = Ok ()"
    by (simp add: validateClientCredentials_def exampleController_def defaultClientID_def
          defaultClientSecret_def)
  have t: "fst (twitchAuthToken exampleController exampleWorld (stateWith ''tok0'')) = Ok ''tok0''"
    by (simp add: twitchAuthToken_def getCachedAccessToken_def validateAccessToken_def
          validateRequest_def exampleWorld_def stateWith_def Let_def)
  have a: "twitchAuthToken exampleController exampleWorld (stateWith ''tok0'') = (Ok ''tok0'', ?s1)"
    using t by (simp add: prod_eq_iff)
  have p: "all_publisher exampleWorld = Inr examplePublishers"
    by (simp add: exampleWorld_def)
  have n: "\<not> new_request_fails exampleWorld (streamsURL @ ?q)"
    by (simp add: exampleWorld_def)
  have r: "streamsRequest exampleController (streamsURL @ ?q) ''tok0'' =
      \<lparr>Method = ''GET'',
       URL = ''https://api.twitch.tv/helix/streams/?user_login=alice&user_login=alice'',
       Header = [(''Content-Type'', ''application/json''),
                 (''client-id'', ''id42''),
                 (''Authorization'', ''Bearer tok0'')]\<rparr>"
    by (simp add: streamsRequest_def streamsURL_def exampleController_def)
  have h: "http_do exampleWorld (streamsRequest exampleController (streamsURL @ ?q) ''tok0'')
      = Inr \<lparr>StatusCode = 200, Body = ''{}''\<rparr>"
    unfolding r by (simp add: exampleWorld_def validateRequest_def validateURL_def)
  have d: "decode_streams exampleWorld ''{}'' = Inr []"
    by (simp add: exampleWorld_def)
  have g: "userQueryLoop examplePublishers [] = ?q \<and>
      getStreams exampleController exampleWorld (stateWith ''tok0'') =
        (Ok [], record_event
                  (HTTPDo (streamsRequest exampleController (streamsURL @ ?q) ''tok0''))
                  (record_event GetAllPublisher ?s1))"
    using getStreams_query_string
            [of examplePublishers exampleController exampleWorld "stateWith ''tok0''" "''tok0''" ?s1]
          c a p n h d
    by (simp add: q)
  show ?thesis
    using g c p t by (simp add: r)
qed

text \<open>
  C9. Each operation on the persisted token keeps the invariant that the stored value is
  absent or non-empty; none of them adds a write of an empty value to the trace; and a
  read treats a stored zero-length value as it treats absence.
\<close>

theorem token_invariant_preserved:
  assumes "tokenInvariant s"
  shows "tokenInvariant (snd (getCachedAccessToken s)) \<and>
         tokenInvariant (snd (updateCachedAccessToken w accessToken s)) \<and>
         tokenInvariant (snd (getNewAuthToken c w s)) \<and>
         tokenInvariant (snd (twitchAuthToken c w s)) \<and>
         list_ex emptyWrite (trace (snd (getCachedAccessToken s))) = list_ex emptyWrite (trace s) \<and>
         list_ex emptyWrite (trace (snd (updateCachedAccessToken w accessToken s))) =
           list_ex emptyWrite (trace s) \<and>
         list_ex emptyWrite (trace (snd (getNewAuthToken c w s))) = list_ex emptyWrite (trace s) \<and>
         list_ex emptyWrite (trace (snd (twitchAuthToken c w s))) = list_ex emptyWrite (trace s) \<and>
         fst (getCachedAccessToken (s\<lparr>bucket := (bucket s)(tokenKey \<mapsto> [])\<rparr>)) =
           fst (getCachedAccessToken (s\<lparr>bucket := (bucket s)(tokenKey := None)\<rparr>))"
proof -
  have "tokenInvariant (snd (getCachedAccessToken s))"
    using assms by (simp add: getCachedAccessToken_snd tokenInvariant_def)
  moreover have "list_ex emptyWrite (trace (snd (getCachedAccessToken s))) =
      list_ex emptyWrite (trace s)"
    by (simp add: getCachedAccessToken_snd)
  moreover have "fst (getCachedAccessToken (s\<lparr>bucket := (bucket s)(tokenKey \<mapsto> [])\<rparr>)) =
      fst (getCachedAccessToken (s\<lparr>bucket := (bucket s)(tokenKey := None)\<rparr>))"
    by (simp add: getCachedAccessToken_def)
  ultimately show ?thesis
    using assms updateCachedAccessToken_inv [of s w accessToken] getNewAuthToken_inv [of s c w]
      twitchAuthToken_inv [of s c w]
    by simp
qed

theorem token_invariant_preserved_witness:
  "tokenInvariant (stateWith ''tok1'') \<and>
   tokenInvariant (snd (twitchAuthToken exampleController exampleWorld (stateWith ''tok1''))) \<and>
   tokenInvariant (snd (getNewAuthToken exampleController exampleWorld (stateWith ''tok1''))) \<and>
   \<not> list_ex emptyWrite
       (trace (snd (twitchAuthToken exampleController exampleWorld (stateWith ''tok1''))))"
proof -
  have i: "tokenInvariant (stateWith ''tok1'')"
    by (simp add: tokenInvariant_def stateWith_def)
  have t: "trace (stateWith ''tok1'') = []"
    by (simp add: stateWith_def)
  show ?thesis
    using token_invariant_preserved [OF i, of exampleWorld "''tok2''" exampleController] i t
    by simp
qed

text \<open>
  C10. When no publisher has a stream channel (the empty list included) and the steps
  before the request succeed, \<open>getStreams\<close> still sends the streams request, to the URL
  that ends in \<open>?\<close> with an empty query, and its result is read off the response alone:
  the transport error, the decoding error, or the decoded list.
\<close>

theorem getStreams_empty_selection:
  assumes "validateClientCredentials c = Ok ()"
    and "twitchAuthToken c w s = (Ok accessToken, s1)"
    and "all_publisher w = Inr ps"
    and "\<forall>p \<in> set ps. TwitchStream p = []"
    and "\<not> new_request_fails w streamsURL"
  shows "getStreams c w s =
           ((case http_do w (streamsRequest c streamsURL accessToken) of
               Inl err \<Rightarrow> Err err
             | Inr resp \<Rightarrow>
                 (case decode_streams w (Body resp) of Inl err \<Rightarrow> Err err | Inr data \<Rightarrow> Ok data)),
            record_event (HTTPDo (streamsRequest c streamsURL accessToken))
              (record_event GetAllPublisher s1)) \<and>
         URL (streamsRequest c streamsURL accessToken) = streamsURL \<and>
         last streamsURL = CHR ''?''"
  using assms
  by (simp add: getStreams_def userQueryLoop_skip Let_def streamsRequest_def streamsURL_def
        split: sum.splits)

theorem getStreams_empty_selection_witness:
  "validateClientCredentials exampleController = Ok () \<and>
   fst (twitchAuthToken exampleController idleWorld (stateWith ''tok0'')) = Ok ''tok0'' \<and>
   fst (getStreams exampleController idleWorld (stateWith ''tok0'')) = Ok [] \<and>
   last (trace (snd (getStreams exampleController idleWorld (stateWith ''tok0''))))
     = HTTPDo (streamsRequest exampleController streamsURL ''tok0'')"
proof -
  let ?s1 = "snd (twitchAuthToken exampleController idleWorld (stateWith ''tok0''))"
  have c: "validateClientCredentials exampleController = Ok ()"
    by (simp add: validateClientCredentials_def exampleController_def defaultClientID_def
          defaultClientSecret_def)
  have t: "fst (twitchAuthToken exampleController idleWorld (stateWith ''tok0'')) = Ok ''tok0''"
    by (simp add: twitchAuthToken_def getCachedAccessToken_def validateAccessToken_def
          validateRequest_def idleWorld_def exampleWorld_def stateWith_def Let_def)
  have a: "twitchAuthToken exampleController idleWorld (stateWith ''tok0'') = (Ok ''tok0'', ?s1)"
    using t by (simp add: prod_eq_iff)
  have p: "all_publisher idleWorld = Inr [\<lparr>Name = ''bob'', TwitchStream = []\<rparr>]"
    by (simp add: idleWorld_def exampleWorld_def)
  have e: "\<forall>p \<in> set [\<lparr>Name = ''bob'', TwitchStream = []\<rparr>]. TwitchStream p = []"
    by simp
  have n: "\<not> new_request_fails idleWorld streamsURL"
    by (simp add: idleWorld_def exampleWorld_def)
  have h: "http_do idleWorld (streamsRequest exampleController streamsURL ''tok0'')
      = Inr \<lparr>StatusCode = 200, Body = ''{}''\<rparr>"
    by (simp add: idleWorld_def exampleWorld_def streamsRequest_def validateRequest_def
          streamsURL_def validateURL_def)
  have d: "decode_streams idleWorld ''{}'' = Inr []"
    by (simp add: idleWorld_def exampleWorld_def)
  have g: "getStreams exampleController idleWorld (stateWith ''tok0'') =
      (Ok [], record_event (HTTPDo (streamsRequest exampleController streamsURL ''tok0''))
                (record_event GetAllPublisher ?s1))"
    using getStreams_empty_selection [OF c a p e n] by (simp add: h d)
  show ?thesis
    using c t by (simp add: g)
qed

end
